theory Spec2Isabelle
  imports Complex_Main
begin

section \<open>Python strings\<close>

text \<open>
  A Python \<open>str\<close> is modelled as a \<open>string\<close> whose characters are the code points
  0..255 (Latin-1). On that range \<open>str.lower\<close> maps A-Z and the accented capitals
  192..222 (but not the multiplication sign 215) to the code point 32 above, and
  \<open>str.strip\<close> removes the code points 9..13, 28..32, 133 and 160 from both ends.
  The range is closed under both operations. Code points above 255 are outside the model.
\<close>

definition is_space :: "char \<Rightarrow> bool" where
  "is_space c =
     (let n = (of_char c :: nat)
      in (9 \<le> n \<and> n \<le> 13) \<or> (28 \<le> n \<and> n \<le> 32) \<or> n = 133 \<or> n = 160)"

definition lower_char :: "char \<Rightarrow> char" where
  "lower_char c =
     (let n = (of_char c :: nat)
      in if (65 \<le> n \<and> n \<le> 90) \<or> (192 \<le> n \<and> n \<le> 222 \<and> n \<noteq> 215)
         then char_of (n + 32) else c)"

definition str_lower :: "string \<Rightarrow> string" where
  "str_lower s = map lower_char s"

definition str_strip :: "string \<Rightarrow> string" where
  "str_strip s = rev (dropWhile is_space (rev (dropWhile is_space s)))"

text \<open>\<open>startswith hay needle\<close> is \<open>hay.startswith(needle)\<close>.\<close>

fun startswith :: "string \<Rightarrow> string \<Rightarrow> bool" where
  "startswith _ [] = True"
| "startswith [] (_ # _) = False"
| "startswith (h # hs) (n # ns) = (h = n \<and> startswith hs ns)"

text \<open>\<open>str_contains needle hay\<close> is the Python test \<open>needle in hay\<close>.\<close>

fun str_contains :: "string \<Rightarrow> string \<Rightarrow> bool" where
  "str_contains needle [] = (needle = [])"
| "str_contains needle (h # hs) = (startswith (h # hs) needle \<or> str_contains needle hs)"

section \<open>pa\_data.py\<close>

definition OUTCOME_ORDER :: "string list" where
  "OUTCOME_ORDER =
     [''Walk'', ''HBP'', ''Single'', ''Double'', ''Triple'', ''HR'', ''Strikeout'', ''Out'']"

text \<open>
  \<open>_event_to_outcome\<close> (lines 12-39). The argument is \<open>None\<close> where \<open>pd.isna(event)\<close>
  holds and \<open>Some s\<close> for a string \<open>s\<close>. The branches are those of the source, in its order.
\<close>

definition event_to_outcome :: "string option \<Rightarrow> string" where
  "event_to_outcome event =
     (case event of
        None \<Rightarrow> ''Out''
      | Some ev \<Rightarrow>
          (let e = str_strip (str_lower ev) in
           if e = ''walk'' then ''Walk''
           else if e = ''hit_by_pitch'' then ''HBP''
           else if e = ''single'' then ''Single''
           else if str_contains ''double_play'' e \<or> e = ''double_play'' then ''Out''
           else if e = ''double'' then ''Double''
           else if str_contains ''triple_play'' e \<or> e = ''triple_play'' then ''Out''
           else if e = ''triple'' then ''Triple''
           else if e = ''home_run'' then ''HR''
           else if str_contains ''strikeout'' e then ''Strikeout''
           else ''Out''))"

text \<open>
  The exceptions the modelled code can raise; \<open>LibraryError\<close> stands for any other
  exception raised inside pandas or numpy.
\<close>

datatype error =
  KeyError | AttributeError | ImportError | ValueError | FileNotFoundError
  | IntCastingNaNError | LibraryError

text \<open>
  A float64 that is not NaN: a finite one, modelled by the real it denotes, or an infinity.
\<close>

datatype num = Fin real | PosInf | NegInf

text \<open>
  A pandas DataFrame: its column labels and its rows. A cell is missing (\<open>None\<close>/\<open>NaN\<close>),
  a string, an integer or a float. A row gives a cell for every label; only the labels in
  \<open>columns\<close> are columns of the frame, and \<open>column c pas\<close> is the Series \<open>pas[c]\<close>.
\<close>

datatype cell = CNull | CStr string | CInt int | CFloat num

type_synonym row = "string \<Rightarrow> cell"

record frame =
  columns :: "string list"
  rows :: "row list"

definition column :: "string \<Rightarrow> frame \<Rightarrow> cell list" where
  "column c pas = map (\<lambda>r. r c) (rows pas)"


definition frame_empty :: "frame \<Rightarrow> bool" where
  "frame_empty f = (columns f = [] \<or> rows f = [])"


text \<open>
  \<open>map_events_to_outcomes\<close> (lines 57-61): \<open>Series.map\<close> calls \<open>_event_to_outcome\<close> on
  every cell of the \<open>events\<close> column; on a number \<open>event.lower()\<close> raises AttributeError.
\<close>

fun event_of_cell :: "cell \<Rightarrow> error + string option" where
  "event_of_cell CNull = Inr None"
| "event_of_cell (CStr s) = Inr (Some s)"
| "event_of_cell (CInt _) = Inl AttributeError"
| "event_of_cell (CFloat _) = Inl AttributeError"

fun label_rows :: "row list \<Rightarrow> error + row list" where
  "label_rows [] = Inr []"
| "label_rows (r # rs) =
     (case event_of_cell (r ''events'') of
        Inl e \<Rightarrow> Inl e
      | Inr ev \<Rightarrow>
          (case label_rows rs of
             Inl e \<Rightarrow> Inl e
           | Inr rs' \<Rightarrow> Inr (r(''outcome'' := CStr (event_to_outcome ev)) # rs')))"

definition add_column :: "string \<Rightarrow> string list \<Rightarrow> string list" where
  "add_column c cols = (if c \<in> set cols then cols else cols @ [c])"

definition map_events_to_outcomes :: "frame \<Rightarrow> error + frame" where
  "map_events_to_outcomes pas =
     (if ''events'' \<notin> set (columns pas) then Inl KeyError
      else (case label_rows (rows pas) of
              Inl e \<Rightarrow> Inl e
            | Inr rs \<Rightarrow> Inr \<lparr>columns = add_column ''outcome'' (columns pas), rows = rs\<rparr>))"

text \<open>
  \<open>pd.to_numeric(col, errors="coerce").fillna(0).astype(int)\<close> on a column. Two things are
  pandas' and numpy's own and are parameters: \<open>parse_number\<close>, the parser of numeric
  strings (\<open>None\<close> for a string that is not a number, or reads as NaN), and
  \<open>cast_special\<close>, what the conversion makes of a finite number it does not represent
  exactly. That is a float outside the int64 range, whose cast depends on the platform, and
  an integer beyond \<open>2 ^ 53\<close> in magnitude, which is rounded when its column is converted to
  float64 and kept when the column stays int64; so the result may depend on the other cells
  of the column, given as the first argument, and the library may raise. A frame here does
  not record the dtype of a column, so a third parameter, \<open>object_dtype\<close>, says of a column
  that holds no value at all whether its dtype is object (it may be float64).

  \<open>to_numeric\<close> is the number read from one cell. \<open>astype(int)\<close> is an int64 cast: it
  raises IntCastingNaNError on an infinity and truncates a finite float towards zero.
\<close>

record pandas =
  parse_number :: "string \<Rightarrow> num option"
  cast_special :: "cell list \<Rightarrow> cell \<Rightarrow> error + int"
  object_dtype :: "string \<Rightarrow> bool"

definition to_numeric :: "pandas \<Rightarrow> cell \<Rightarrow> num option" where
  "to_numeric lib c =
     (case c of
        CNull \<Rightarrow> None
      | CStr s \<Rightarrow> parse_number lib s
      | CInt i \<Rightarrow> Some (Fin (of_int i))
      | CFloat x \<Rightarrow> Some x)"

definition fillna0 :: "num option \<Rightarrow> num" where
  "fillna0 v = (case v of None \<Rightarrow> Fin 0 | Some x \<Rightarrow> x)"

definition truncation :: "real \<Rightarrow> int" where
  "truncation x = (if 0 \<le> x then \<lfloor>x\<rfloor> else \<lceil>x\<rceil>)"

definition in_int64 :: "int \<Rightarrow> bool" where
  "in_int64 k = (- (2 ^ 63) \<le> k \<and> k < 2 ^ 63)"

text \<open>The int64 that an integer wraps to.\<close>

definition int64 :: "int \<Rightarrow> int" where
  "int64 k = (k + 2 ^ 63) mod 2 ^ 64 - 2 ^ 63"

text \<open>
  \<open>exact_cast c x\<close>: the number \<open>x\<close> read from the cell \<open>c\<close> is cast exactly, whatever
  the column: its truncation is an int64 and, unless the cell is itself a float, it is at most
  \<open>2 ^ 53\<close> in magnitude.
\<close>

definition exact_cast :: "cell \<Rightarrow> real \<Rightarrow> bool" where
  "exact_cast c x =
     (in_int64 (truncation x)
      \<and> (case c of CFloat _ \<Rightarrow> True | _ \<Rightarrow> \<bar>truncation x\<bar> \<le> 2 ^ 53))"

definition astype_int :: "pandas \<Rightarrow> cell list \<Rightarrow> cell \<Rightarrow> num \<Rightarrow> error + int" where
  "astype_int lib cells c v =
     (case v of
        PosInf \<Rightarrow> Inl IntCastingNaNError
      | NegInf \<Rightarrow> Inl IntCastingNaNError
      | Fin x \<Rightarrow>
          if exact_cast c x then Inr (truncation x)
          else (case cast_special lib cells c of Inl e \<Rightarrow> Inl e | Inr k \<Rightarrow> Inr (int64 k)))"

definition coerce_count :: "pandas \<Rightarrow> cell list \<Rightarrow> cell \<Rightarrow> error + int" where
  "coerce_count lib cells c = astype_int lib cells c (fillna0 (to_numeric lib c))"

text \<open>The values of a list of results, or the first exception among them.\<close>

fun sequence :: "(error + 'a) list \<Rightarrow> error + 'a list" where
  "sequence [] = Inr []"
| "sequence (x # xs) =
     (case x of
        Inl e \<Rightarrow> Inl e
      | Inr v \<Rightarrow> (case sequence xs of Inl e \<Rightarrow> Inl e | Inr vs \<Rightarrow> Inr (v # vs)))"

definition coerce_counts :: "pandas \<Rightarrow> cell list \<Rightarrow> error + int list" where
  "coerce_counts lib cells = sequence (map (coerce_count lib cells) cells)"




section \<open>pa\_model.py\<close>

text \<open>The count feature, \<open>balls * 4 + strikes\<close> (pa\_model.py line 38, sim\_rates.py line 46).\<close>

definition count_id :: "int \<Rightarrow> int \<Rightarrow> int" where
  "count_id balls strikes = balls * 4 + strikes"

text \<open>
  \<open>build_features\<close> (lines 32-48), statement by statement, so that the first exception is
  the one raised. \<open>str.upper\<close> is the parameter \<open>upper\<close>. The \<open>.str\<close> accessor works on
  a column that holds a string, and on a column of object dtype that holds no value at all;
  on any other column (numbers and no string, or float64 without a value) it raises
  AttributeError. It gives a missing value on a cell that is not a string, and \<open>==\<close> is
  false where either side is missing. On line 38 the int64 arithmetic of numpy wraps.
\<close>

definition str_accessor :: "pandas \<Rightarrow> string \<Rightarrow> frame \<Rightarrow> bool" where
  "str_accessor lib c pas =
     (list_ex (\<lambda>v. case v of CStr _ \<Rightarrow> True | _ \<Rightarrow> False) (column c pas)
      \<or> (list_all (\<lambda>v. v = CNull) (column c pas) \<and> object_dtype lib c))"

definition str_upper_cell :: "(string \<Rightarrow> string) \<Rightarrow> cell \<Rightarrow> cell" where
  "str_upper_cell upper c = (case c of CStr s \<Rightarrow> CStr (upper s) | _ \<Rightarrow> CNull)"

definition cell_eq :: "cell \<Rightarrow> cell \<Rightarrow> bool" where
  "cell_eq a b = (a \<noteq> CNull \<and> b \<noteq> CNull \<and> a = b)"

definition feature_row ::
  "(string \<Rightarrow> string) \<Rightarrow> pandas \<Rightarrow> string list \<Rightarrow> int \<Rightarrow> int \<Rightarrow> row \<Rightarrow> row" where
  "feature_row upper lib opt b s r =
     (let same_hand = cell_eq (str_upper_cell upper (r ''stand''))
                              (str_upper_cell upper (r ''p_throws''));
          r' = r(''balls'' := CInt b, ''strikes'' := CInt s,
                 ''count_id'' := CInt (int64 (count_id b s)),
                 ''platoon_same'' := CInt (if same_hand then 1 else 0))
      in fold (\<lambda>c q. q(c := CFloat (fillna0 (to_numeric lib (q c))))) opt r')"

definition select_columns :: "string list \<Rightarrow> row \<Rightarrow> row" where
  "select_columns cols r = (\<lambda>c. if c \<in> set cols then r c else CNull)"

definition build_features ::
  "(string \<Rightarrow> string) \<Rightarrow> pandas \<Rightarrow> frame \<Rightarrow> error + (frame \<times> cell list)" where
  "build_features upper lib pas =
     (if ''balls'' \<notin> set (columns pas) then Inl KeyError
      else (case coerce_counts lib (column ''balls'' pas) of
        Inl e \<Rightarrow> Inl e
      | Inr bs \<Rightarrow>
     (if ''strikes'' \<notin> set (columns pas) then Inl KeyError
      else (case coerce_counts lib (column ''strikes'' pas) of
        Inl e \<Rightarrow> Inl e
      | Inr ss \<Rightarrow>
     (if ''stand'' \<notin> set (columns pas) then Inl KeyError
      else if \<not> str_accessor lib ''stand'' pas then Inl AttributeError
      else if ''p_throws'' \<notin> set (columns pas) then Inl KeyError
      else if \<not> str_accessor lib ''p_throws'' pas then Inl AttributeError
      else
        let opt = filter (\<lambda>c. c \<in> set (columns pas)) [''inning'', ''outs_when_up''];
            feature_cols = [''count_id'', ''platoon_same''] @ opt;
            df = map (\<lambda>(r, b, s). feature_row upper lib opt b s r)
                   (zip (rows pas) (zip bs ss))
        in if ''outcome'' \<notin> set (columns pas) then Inl KeyError
           else Inr (\<lparr>columns = feature_cols, rows = map (select_columns feature_cols) df\<rparr>,
                     map (\<lambda>r. r ''outcome'') df))))))"

text \<open>\<open>Series.isin(values)\<close> on one cell.\<close>

definition isin :: "cell \<Rightarrow> string list \<Rightarrow> bool" where
  "isin c vals = (case c of CStr s \<Rightarrow> s \<in> set vals | _ \<Rightarrow> False)"

text \<open>
  \<open>train_model\<close> (lines 51-80). Lines 58-80 (label encoding, the stratified split, the
  fit of the library's classifier and the accuracy) are library calls on the rows that are
  left; they are the parameter \<open>fit\<close>, which returns the trained bundle or raises.
\<close>

definition valid_pairs :: "frame \<Rightarrow> cell list \<Rightarrow> (row \<times> cell) list" where
  "valid_pairs X y = filter (\<lambda>p. isin (snd p) OUTCOME_ORDER) (zip (rows X) y)"

definition train_model ::
  "(string \<Rightarrow> string) \<Rightarrow> pandas \<Rightarrow> (frame \<Rightarrow> cell list \<Rightarrow> error + 'm)
     \<Rightarrow> frame \<Rightarrow> error + 'm" where
  "train_model upper lib fit pas =
     (case build_features upper lib pas of
        Inl e \<Rightarrow> Inl e
      | Inr (X, y) \<Rightarrow>
          (let X' = X\<lparr>rows := map fst (valid_pairs X y)\<rparr>;
               y' = map snd (valid_pairs X y)
           in if frame_empty X' \<or> y' = [] then Inl ValueError else fit X' y'))"

text \<open>
  \<open>league_rates_from_data\<close> (lines 103-128). \<open>pa_data\<close> defines no \<open>add_platoon_info\<close>,
  so the import on line 120 raises ImportError. The returned dict is the list of its items
  in insertion order; the float quotient is modelled by the exact one.
\<close>

definition selected_rows :: "string option \<Rightarrow> frame \<Rightarrow> row list" where
  "selected_rows platoon_filter pas =
     (case platoon_filter of
        None \<Rightarrow> rows pas
      | Some pf \<Rightarrow> filter (\<lambda>r. r ''platoon_matchup'' = CStr pf) (rows pas))"

definition outcome_count :: "row list \<Rightarrow> string \<Rightarrow> nat" where
  "outcome_count rs outcome = length (filter (\<lambda>r. r ''outcome'' = CStr outcome) rs)"

definition rates_of :: "row list \<Rightarrow> (string \<times> real) list" where
  "rates_of rs =
     (let n = length rs
      in map (\<lambda>outcome. (outcome, if n \<noteq> 0 then real (outcome_count rs outcome) / real n else 0))
           OUTCOME_ORDER)"

definition league_rates_from_data :: "frame \<Rightarrow> string option \<Rightarrow> error + (string \<times> real) list" where
  "league_rates_from_data pas platoon_filter =
     (case (if ''outcome'' \<notin> set (columns pas) then map_events_to_outcomes pas else Inr pas) of
        Inl e \<Rightarrow> Inl e
      | Inr labelled \<Rightarrow>
          if platoon_filter \<noteq> None \<and> ''platoon_matchup'' \<notin> set (columns labelled)
          then Inl ImportError
          else Inr (rates_of (selected_rows platoon_filter labelled)))"

section \<open>sim\_rates.py\<close>

text \<open>
  What \<open>get_outcome_probs\<close> finds where it runs: the two files, \<open>None\<close> for a file that
  does not exist and otherwise what \<open>json.load\<close> and \<open>pickle.load\<close> return, and whether
  the module \<open>pa_model\<close> can be imported (it imports sklearn, xgboost and pybaseball). The
  type \<open>'p\<close> is that of a probability. Of the pickled bundle the model keeps
  \<open>clf.predict_proba\<close> on the single query row (its columns in order, with their values),
  the two attributes of \<open>clf\<close> that line 90 of pa\_model.py reads, \<open>le.classes_\<close> and
  \<open>meta.get("feature_names")\<close>.
\<close>

record 'p model =
  predict_proba :: "(string \<times> int) list \<Rightarrow> 'p list"
  feature_names_in :: "string list option"
  clf_feature_names :: "string list option"
  classes :: "string list"
  meta_feature_names :: "string list option"

record 'p site =
  rates_json :: "(string \<times> 'p) list option"
  model_pkl :: "'p model option"
  pa_model_importable :: bool

definition load_league_rates :: "'p site \<Rightarrow> error + (string \<times> 'p) list" where
  "load_league_rates fs =
     (case rates_json fs of None \<Rightarrow> Inl FileNotFoundError | Some rates \<Rightarrow> Inr rates)"

definition load_outcome_model :: "'p site \<Rightarrow> error + 'p model" where
  "load_outcome_model fs =
     (case model_pkl fs of None \<Rightarrow> Inl FileNotFoundError | Some m \<Rightarrow> Inr m)"

text \<open>Python's \<open>a or b\<close> on values that are \<open>None\<close> or a list.\<close>

definition py_or :: "'a list option \<Rightarrow> 'a list option \<Rightarrow> 'a list option" where
  "py_or a b = (case a of Some (x # xs) \<Rightarrow> a | _ \<Rightarrow> b)"

text \<open>\<open>outcome_probs_for_sim\<close> (pa\_model.py lines 83-100).\<close>

definition outcome_probs_for_sim ::
  "'p model \<Rightarrow> int \<Rightarrow> int \<Rightarrow> int \<Rightarrow> int \<Rightarrow> string list option \<Rightarrow> (string \<times> 'p) list" where
  "outcome_probs_for_sim m cid platoon_same inning outs feature_names =
     (let fnames =
            (case py_or (py_or feature_names (feature_names_in m)) (clf_feature_names m) of
               None \<Rightarrow> [''count_id'', ''platoon_same'']
             | Some fs \<Rightarrow> fs);
          row = [(''count_id'', cid), (''platoon_same'', platoon_same)]
                @ (if ''inning'' \<in> set fnames then [(''inning'', inning)] else [])
                @ (if ''outs_when_up'' \<in> set fnames then [(''outs_when_up'', outs)] else []);
          X = List.map_filter (\<lambda>c. map_option (Pair c) (map_of row c)) fnames
      in zip (classes m) (predict_proba m X))"

text \<open>
  \<open>get_outcome_probs\<close> (lines 35-51). \<open>ml_attempt\<close> is the body of the \<open>try\<close>, lines
  44-48: the import on line 44 raises ImportError where \<open>pa_model\<close> cannot be imported.
  The handler on line 49 catches FileNotFoundError only.
\<close>

definition ml_attempt :: "'p site \<Rightarrow> int \<Rightarrow> int \<Rightarrow> bool \<Rightarrow> error + (string \<times> 'p) list" where
  "ml_attempt fs count_balls count_strikes same_hand =
     (if \<not> pa_model_importable fs then Inl ImportError
      else (case load_outcome_model fs of
              Inl e \<Rightarrow> Inl e
            | Inr m \<Rightarrow>
                Inr (outcome_probs_for_sim m (count_id count_balls count_strikes)
                       (if same_hand then 1 else 0) 5 0 (meta_feature_names m))))"

definition get_outcome_probs ::
  "'p site \<Rightarrow> int \<Rightarrow> int \<Rightarrow> bool \<Rightarrow> bool \<Rightarrow> error + (string \<times> 'p) list" where
  "get_outcome_probs fs count_balls count_strikes same_hand use_ml =
     (if use_ml
      then (case ml_attempt fs count_balls count_strikes same_hand of
              Inr probs \<Rightarrow> Inr probs
            | Inl e \<Rightarrow> if e = FileNotFoundError then load_league_rates fs else Inl e)
      else load_league_rates fs)"

section \<open>The classification rules in the words of the specification\<close>

text \<open>
  Section 4.1 of the specification lists the rules 2 to 10 as tests on the outcome string,
  the first that matches giving the category, and rule 11 as the default. Rule 2 is worded
  "case-insensitive exact match", rules 3, 4, 6, 8 and 9 "exact match", rules 5, 7 and 10
  "string contains". \<open>spec_rules\<close> applies them, with rule 1 for a missing value, to the
  string it is given.
\<close>

definition spec_rule_table :: "((string \<Rightarrow> bool) \<times> string) list" where
  "spec_rule_table =
     [(\<lambda>s. str_lower s = ''walk'', ''Walk''),
      (\<lambda>s. s = ''hit_by_pitch'', ''HBP''),
      (\<lambda>s. s = ''single'', ''Single''),
      (\<lambda>s. str_contains ''double_play'' s, ''Out''),
      (\<lambda>s. s = ''double'', ''Double''),
      (\<lambda>s. str_contains ''triple_play'' s, ''Out''),
      (\<lambda>s. s = ''triple'', ''Triple''),
      (\<lambda>s. s = ''home_run'', ''HR''),
      (\<lambda>s. str_contains ''strikeout'' s, ''Strikeout'')]"

fun first_match :: "((string \<Rightarrow> bool) \<times> string) list \<Rightarrow> string \<Rightarrow> string" where
  "first_match [] s = ''Out''"
| "first_match ((p, category) # rules) s = (if p s then category else first_match rules s)"

definition spec_rules :: "string option \<Rightarrow> string" where
  "spec_rules event =
     (case event of None \<Rightarrow> ''Out'' | Some s \<Rightarrow> first_match spec_rule_table s)"

section \<open>Normalisation of the outcome string\<close>

lemma lower_char_idem: "lower_char (lower_char c) = lower_char c"
  by (simp add: lower_char_def Let_def)

lemma is_space_lower_char: "is_space (lower_char c) = is_space c"
  by (simp add: lower_char_def is_space_def Let_def)

lemma str_lower_idem: "str_lower (str_lower s) = str_lower s"
  by (simp add: str_lower_def lower_char_idem)

lemma str_lower_strip: "str_lower (str_strip s) = str_strip (str_lower s)"
  by (simp add: str_lower_def str_strip_def rev_map dropWhile_map comp_def is_space_lower_char)

lemma strip_right_keeps_head:
  "xs = [] \<or> \<not> P (hd xs) \<Longrightarrow>
     dropWhile P (rev (dropWhile P (rev xs))) = rev (dropWhile P (rev xs))"
proof (induction xs rule: rev_induct)
  case Nil
  then show ?case by simp
next
  case (snoc x xs)
  show ?case
  proof (cases "P x")
    case True
    with snoc show ?thesis
      by (cases xs) auto
  next
    case False
    with snoc.prems show ?thesis
      by (cases xs) auto
  qed
qed

lemma str_strip_idem: "str_strip (str_strip s) = str_strip s"
proof -
  let ?t = "dropWhile is_space s"
  have "?t = [] \<or> \<not> is_space (hd ?t)"
    using hd_dropWhile by blast
  then have "dropWhile is_space (rev (dropWhile is_space (rev ?t)))
               = rev (dropWhile is_space (rev ?t))"
    by (rule strip_right_keeps_head)
  then show ?thesis
    by (simp add: str_strip_def)
qed

lemma normalise_idem:
  "str_strip (str_lower (str_strip (str_lower s))) = str_strip (str_lower s)"
  by (simp add: str_lower_strip str_lower_idem str_strip_idem)

lemma normalise_lower_fixed:
  "str_lower (str_strip (str_lower s)) = str_strip (str_lower s)"
  by (simp add: str_lower_strip str_lower_idem)

lemma event_to_outcome_in_order: "event_to_outcome event \<in> set OUTCOME_ORDER"
  by (cases event) (simp_all add: event_to_outcome_def OUTCOME_ORDER_def Let_def)

section \<open>The event classifier\<close>

text \<open>
  C1, as the code has it: the classifier maps each of "strikeout\_double\_play",
  "field\_error", "sac\_fly" and "grounded\_into\_double\_play" to Out. The first of them
  contains "double\_play", and that test (line 26) comes before the test for "strikeout"
  (line 36).
\<close>

theorem corpus_outcomes:
  "map (\<lambda>s. event_to_outcome (Some s))
     [''strikeout_double_play'', ''field_error'', ''sac_fly'', ''grounded_into_double_play'']
   = [''Out'', ''Out'', ''Out'', ''Out'']"
  by code_simp

text \<open>
  C1 as the specification states it fails: "strikeout\_double\_play" is not classified as
  Strikeout.
\<close>

theorem strikeout_double_play_not_strikeout:
  "event_to_outcome (Some ''strikeout_double_play'') \<noteq> ''Strikeout''"
  by code_simp

text \<open>
  C2, as the code has it: on every input the classifier gives what the eleven rules of the
  specification give, tried in order with the first match winning, when they are applied to
  the lower-cased and stripped form of the string (a missing value is left as it is); and
  the result is always one of the eight categories.
\<close>

theorem event_to_outcome_refines_rules:
  "event_to_outcome event = spec_rules (map_option (\<lambda>s. str_strip (str_lower s)) event)
   \<and> event_to_outcome event \<in> set OUTCOME_ORDER"
proof (cases event)
  case None
  then show ?thesis
    by (simp add: event_to_outcome_def spec_rules_def OUTCOME_ORDER_def)
next
  case (Some s)
  have "event_to_outcome (Some s) = spec_rules (Some (str_strip (str_lower s)))"
    by (simp add: event_to_outcome_def spec_rules_def spec_rule_table_def Let_def
          normalise_lower_fixed)
  moreover have "event_to_outcome (Some s) \<in> set OUTCOME_ORDER"
    by (rule event_to_outcome_in_order)
  ultimately show ?thesis
    using Some by simp
qed

text \<open>
  C2 with the rules applied to the string as it is given fails: "single" followed by a
  blank is not an exact match of any rule and contains none of the three substrings, so
  the rules give Out, while the classifier strips the blank and answers Single.
\<close>

theorem rules_on_raw_string_differ:
  "event_to_outcome (Some ''single '') = ''Single'' \<and> spec_rules (Some ''single '') = ''Out''"
  by code_simp

text \<open>
  C9: the classifier gives the same category for a string and for its lower-cased, stripped
  form (in either order of the two operations), since it normalises its input before any
  rule is tried; for instance "  Walk " is classified as Walk.
\<close>

theorem event_to_outcome_normalised:
  "event_to_outcome (Some s) = event_to_outcome (Some (str_strip (str_lower s)))
   \<and> event_to_outcome (Some s) = event_to_outcome (Some (str_lower (str_strip s)))
   \<and> event_to_outcome (Some ''  Walk '') = ''Walk''"
proof -
  have a: "event_to_outcome (Some s) = event_to_outcome (Some (str_strip (str_lower s)))"
    by (simp add: event_to_outcome_def normalise_idem)
  have b: "event_to_outcome (Some ''  Walk '') = ''Walk''"
    by code_simp
  from a b show ?thesis
    by (simp add: str_lower_strip)
qed

section \<open>The count feature\<close>

text \<open>
  C8: for balls in 0..3 and strikes in 0..2 the count feature \<open>balls * 4 + strikes\<close> lies
  in 0..14, and two such pairs have the same feature only if they are the same pair.
\<close>

theorem count_id_unique_in_range:
  assumes "b \<in> {0..3}" and "s \<in> {0..2}" and "b' \<in> {0..3}" and "s' \<in> {0..2}"
  shows "0 \<le> count_id b s \<and> count_id b s \<le> 14
         \<and> (count_id b s = count_id b' s' \<longleftrightarrow> b = b' \<and> s = s')"
proof -
  from assms have r: "0 \<le> b" "b \<le> 3" "0 \<le> s" "s \<le> 2" "0 \<le> b'" "b' \<le> 3" "0 \<le> s'" "s' \<le> 2"
    by simp_all
  have lo: "0 \<le> count_id b s" and hi: "count_id b s \<le> 14"
    using r by (simp_all add: count_id_def)
  have inj: "b = b' \<and> s = s'" if eq: "count_id b s = count_id b' s'"
  proof -
    from eq have e: "b * 4 + s = b' * 4 + s'"
      by (simp add: count_id_def)
    have "b = b'"
    proof (rule ccontr)
      assume "b \<noteq> b'"
      then consider "b < b'" | "b' < b" by linarith
      then show False
        using e r by cases linarith+
    qed
    with e show ?thesis by simp
  qed
  from lo hi inj show ?thesis by auto
qed

theorem count_id_unique_in_range_witness:
  "count_id 3 2 = 14 \<and> count_id 0 0 = 0 \<and> count_id 3 2 \<noteq> count_id 2 2
   \<and> 0 \<le> count_id 1 2 \<and> count_id 1 2 \<le> 14"
  using count_id_unique_in_range [of 3 2 2 2] count_id_unique_in_range [of 1 2 1 2]
  by (simp add: count_id_def)

section \<open>The dataset loader\<close>

lemma sequence_Inr: "sequence xs = Inr vs \<longleftrightarrow> xs = map Inr vs"
proof (induction xs arbitrary: vs)
  case Nil
  then show ?case by auto
next
  case (Cons x xs)
  show ?case
  proof (cases x)
    case (Inl e)
    then show ?thesis by (cases vs) auto
  next
    case (Inr v)
    show ?thesis
    proof (cases "sequence xs")
      case (Inl e)
      with Cons.IH have "\<And>ws. xs \<noteq> map Inr ws"
        by (metis sum.distinct(1))
      with Inl \<open>x = Inr v\<close> show ?thesis
        by (cases vs) auto
    next
      case r: (Inr ws)
      with Cons.IH [of ws] have "xs = map Inr ws"
        by simp
      with r \<open>x = Inr v\<close> show ?thesis
        by (cases vs) (auto simp: inj_map_eq_map [OF inj_Inr])
    qed
  qed
qed

lemma coerce_counts_cells:
  assumes "coerce_counts lib cells = Inr ks"
  shows "list_all2 (\<lambda>c k. coerce_count lib cells c = Inr k) cells ks"
proof -
  from assms have "map (coerce_count lib cells) cells = map Inr ks"
    by (simp add: coerce_counts_def sequence_Inr)
  then show ?thesis
    by (auto simp: list_all2_conv_all_nth list_eq_iff_nth_eq)
qed

lemma coerce_counts_length: "coerce_counts lib cells = Inr ks \<Longrightarrow> length ks = length cells"
  by (drule coerce_counts_cells) (simp add: list_all2_lengthD)






















section \<open>The trainer\<close>

lemma fold_cells_other:
  "c \<notin> set cs \<Longrightarrow>
     fold (\<lambda>c q. q(c := CFloat (fillna0 (to_numeric lib (q c))))) cs r c = r c"
  by (induction cs arbitrary: r) auto

lemma feature_row_outcome:
  "''outcome'' \<notin> set opt \<Longrightarrow> feature_row upper lib opt b s r ''outcome'' = r ''outcome''"
  by (simp add: feature_row_def Let_def fold_cells_other)

lemma outcome_of_feature_rows:
  "length bs = length rs \<Longrightarrow> length ss = length rs \<Longrightarrow> ''outcome'' \<notin> set opt \<Longrightarrow>
     map (\<lambda>r. r ''outcome'')
         (map (\<lambda>(r, b, s). feature_row upper lib opt b s r) (zip rs (zip bs ss)))
       = map (\<lambda>r. r ''outcome'') rs"
proof (induction rs arbitrary: bs ss)
  case Nil
  then show ?case by simp
next
  case (Cons r rs)
  then obtain b bs' s ss' where "bs = b # bs'" and "ss = s # ss'"
    by (cases bs; cases ss) auto
  with Cons show ?case
    by (simp add: feature_row_outcome)
qed

lemma build_features_result:
  assumes "build_features upper lib pas = Inr (X, y)"
  shows "columns X \<noteq> []" and "length (rows X) = length y"
    and "y = map (\<lambda>r. r ''outcome'') (rows pas)"
proof -
  from assms obtain bs ss where bs: "coerce_counts lib (column ''balls'' pas) = Inr bs"
    and ss: "coerce_counts lib (column ''strikes'' pas) = Inr ss"
    by (auto simp: build_features_def split: if_splits sum.splits)
  let ?opt = "filter (\<lambda>c. c \<in> set (columns pas)) [''inning'', ''outs_when_up'']"
  let ?cols = "[''count_id'', ''platoon_same''] @ ?opt"
  let ?df = "map (\<lambda>(r, b, s). feature_row upper lib ?opt b s r) (zip (rows pas) (zip bs ss))"
  from assms bs ss have X: "X = \<lparr>columns = ?cols, rows = map (select_columns ?cols) ?df\<rparr>"
    and y: "y = map (\<lambda>r. r ''outcome'') ?df"
    by (simp_all add: build_features_def Let_def split: if_splits)
  from X show "columns X \<noteq> []"
    by simp
  from X y show "length (rows X) = length y"
    by simp
  have len: "length bs = length (rows pas)" "length ss = length (rows pas)"
    using bs ss by (simp_all add: coerce_counts_length column_def)
  have "''outcome'' \<notin> set ?opt"
    by auto
  with len have "map (\<lambda>r. r ''outcome'') ?df = map (\<lambda>r. r ''outcome'') (rows pas)"
    by (rule outcome_of_feature_rows)
  with y show "y = map (\<lambda>r. r ''outcome'') (rows pas)"
    by simp
qed

lemma valid_pairs_labels:
  "length rs = length y \<Longrightarrow>
     map snd (filter (\<lambda>p. P (snd p)) (zip rs y)) = filter P y"
  by (induction rs y rule: list_induct2) auto

text \<open>
  C6: when feature building has returned the features \<open>X\<close> and the labels \<open>y\<close>, and
  no label is one of the eight categories, \<open>train_model\<close> raises ValueError and fits
  nothing; otherwise the fit receives exactly the rows whose label is one of the eight
  categories, with those labels, every other row having been dropped. The labels are the
  \<open>outcome\<close> cells of the input rows.
\<close>

theorem train_model_keeps_valid_rows:
  assumes "build_features upper lib pas = Inr (X, y)"
  shows "(filter (\<lambda>l. isin l OUTCOME_ORDER) y = [] \<longrightarrow>
            train_model upper lib fit pas = Inl ValueError)
       \<and> (filter (\<lambda>l. isin l OUTCOME_ORDER) y \<noteq> [] \<longrightarrow>
            train_model upper lib fit pas
              = fit (X\<lparr>rows := map fst (valid_pairs X y)\<rparr>) (filter (\<lambda>l. isin l OUTCOME_ORDER) y))
       \<and> valid_pairs X y = filter (\<lambda>p. isin (snd p) OUTCOME_ORDER) (zip (rows X) y)
       \<and> y = map (\<lambda>r. r ''outcome'') (rows pas)"
proof -
  have len: "length (rows X) = length y" and cols: "columns X \<noteq> []"
    and y: "y = map (\<lambda>r. r ''outcome'') (rows pas)"
    using build_features_result [OF assms] by simp_all
  have labels: "map snd (valid_pairs X y) = filter (\<lambda>l. isin l OUTCOME_ORDER) y"
    unfolding valid_pairs_def using len by (rule valid_pairs_labels)
  have run: "train_model upper lib fit pas
               = (if filter (\<lambda>l. isin l OUTCOME_ORDER) y = [] then Inl ValueError
                  else fit (X\<lparr>rows := map fst (valid_pairs X y)\<rparr>)
                           (filter (\<lambda>l. isin l OUTCOME_ORDER) y))"
    using cols labels [symmetric]
    by (simp add: train_model_def assms Let_def frame_empty_def)
  show ?thesis
    using run y by (simp add: valid_pairs_def)
qed

theorem train_model_keeps_valid_rows_witness:
  "train_model (\<lambda>s. s) \<lparr>parse_number = \<lambda>s. None, cast_special = \<lambda>cells c. Inl LibraryError,
       object_dtype = \<lambda>c. True\<rparr>
     (\<lambda>X y. Inr y)
     \<lparr>columns = [''balls'', ''strikes'', ''stand'', ''p_throws'', ''outcome''],
      rows = [(\<lambda>c. CNull)(''balls'' := CInt 1, ''strikes'' := CInt 2, ''stand'' := CStr ''L'',
                             ''p_throws'' := CStr ''R'', ''outcome'' := CStr ''Bunt'')]\<rparr>
     = (Inl ValueError :: error + cell list)
   \<and> train_model (\<lambda>s. s) \<lparr>parse_number = \<lambda>s. None, cast_special = \<lambda>cells c. Inl LibraryError,
       object_dtype = \<lambda>c. True\<rparr>
     (\<lambda>X y. Inr y)
     \<lparr>columns = [''balls'', ''strikes'', ''stand'', ''p_throws'', ''outcome''],
      rows = [(\<lambda>c. CNull)(''balls'' := CInt 1, ''strikes'' := CInt 2, ''stand'' := CStr ''L'',
                             ''p_throws'' := CStr ''R'', ''outcome'' := CStr ''Bunt''),
              (\<lambda>c. CNull)(''balls'' := CInt 0, ''strikes'' := CInt 0, ''stand'' := CStr ''R'',
                             ''p_throws'' := CStr ''R'', ''outcome'' := CStr ''Walk'')]\<rparr>
     = Inr [CStr ''Walk'']"
proof -
  let ?lib = "\<lparr>parse_number = \<lambda>s. None, cast_special = \<lambda>cells c. Inl LibraryError,
       object_dtype = \<lambda>c. True\<rparr>"
  let ?bunt = "(\<lambda>c. CNull)(''balls'' := CInt 1, ''strikes'' := CInt 2, ''stand'' := CStr ''L'',
                             ''p_throws'' := CStr ''R'', ''outcome'' := CStr ''Bunt'')"
  let ?walk = "(\<lambda>c. CNull)(''balls'' := CInt 0, ''strikes'' := CInt 0, ''stand'' := CStr ''R'',
                             ''p_throws'' := CStr ''R'', ''outcome'' := CStr ''Walk'')"
  let ?cols = "[''balls'', ''strikes'', ''stand'', ''p_throws'', ''outcome'']"
  let ?fit = "\<lambda>(X :: frame) (y :: cell list). (Inr y :: error + cell list)"
  have t: "truncation 0 = 0" "truncation 1 = 1" "truncation 2 = 2"
    by (simp_all add: truncation_def)
  have n: "coerce_count ?lib cells (CInt 0) = Inr 0" "coerce_count ?lib cells (CInt 1) = Inr 1"
    "coerce_count ?lib cells (CInt 2) = Inr 2" for cells
    by (simp_all add: coerce_count_def astype_int_def exact_cast_def in_int64_def
          to_numeric_def fillna0_def t)
  obtain X1 y1 where b1: "build_features (\<lambda>s. s) ?lib \<lparr>columns = ?cols, rows = [?bunt]\<rparr> = Inr (X1, y1)"
    by (simp add: build_features_def Let_def column_def coerce_counts_def n str_accessor_def)
  obtain X2 y2 where b2: "build_features (\<lambda>s. s) ?lib \<lparr>columns = ?cols, rows = [?bunt, ?walk]\<rparr> = Inr (X2, y2)"
    by (simp add: build_features_def Let_def column_def coerce_counts_def n str_accessor_def)
  from train_model_keeps_valid_rows [OF b1, of ?fit]
  have "train_model (\<lambda>s. s) ?lib ?fit \<lparr>columns = ?cols, rows = [?bunt]\<rparr> = Inl ValueError"
    by (simp add: isin_def OUTCOME_ORDER_def)
  moreover from train_model_keeps_valid_rows [OF b2, of ?fit]
  have "train_model (\<lambda>s. s) ?lib ?fit \<lparr>columns = ?cols, rows = [?bunt, ?walk]\<rparr> = Inr [CStr ''Walk'']"
    by (simp add: isin_def OUTCOME_ORDER_def)
  ultimately show ?thesis
    by simp
qed

section \<open>The rate aggregator\<close>

lemma label_rows_labelled:
  "label_rows rs = Inr rs' \<Longrightarrow> list_all (\<lambda>r. isin (r ''outcome'') OUTCOME_ORDER) rs'"
proof (induction rs arbitrary: rs')
  case Nil
  then show ?case by simp
next
  case (Cons r rs)
  then show ?case
    by (auto simp: isin_def event_to_outcome_in_order split: sum.splits)
qed

lemma map_events_to_outcomes_labelled:
  assumes "map_events_to_outcomes p0 = Inr pas"
  shows "''outcome'' \<in> set (columns pas)"
    and "list_all (\<lambda>r. isin (r ''outcome'') OUTCOME_ORDER) (rows pas)"
  using assms
  by (auto simp: map_events_to_outcomes_def add_column_def label_rows_labelled
           split: if_splits sum.splits)

lemma selected_rows_labelled:
  "list_all P (rows pas) \<Longrightarrow> list_all P (selected_rows platoon_filter pas)"
  by (cases platoon_filter) (auto simp: selected_rows_def list_all_iff)

lemma one_category_per_row:
  assumes "isin c OUTCOME_ORDER"
  shows "(\<Sum>outcome\<leftarrow>OUTCOME_ORDER. if c = CStr outcome then 1 else 0) = (1::nat)"
  using assms by (auto simp: isin_def OUTCOME_ORDER_def split: cell.splits)

lemma outcome_count_Cons:
  "outcome_count (r # rs) outcome
     = (if r ''outcome'' = CStr outcome then 1 else 0) + outcome_count rs outcome"
  by (simp add: outcome_count_def)

lemma counts_partition_rows:
  "list_all (\<lambda>r. isin (r ''outcome'') OUTCOME_ORDER) rs \<Longrightarrow>
     (\<Sum>outcome\<leftarrow>OUTCOME_ORDER. outcome_count rs outcome) = length rs"
proof (induction rs)
  case Nil
  then show ?case by (simp add: outcome_count_def)
next
  case (Cons r rs)
  then have "isin (r ''outcome'') OUTCOME_ORDER"
    and ih: "(\<Sum>outcome\<leftarrow>OUTCOME_ORDER. outcome_count rs outcome) = length rs"
    by simp_all
  then have "(\<Sum>outcome\<leftarrow>OUTCOME_ORDER. if r ''outcome'' = CStr outcome then 1 else 0) = (1::nat)"
    by (simp add: one_category_per_row)
  with ih show ?case
    by (simp add: outcome_count_Cons sum_list_addf)
qed

lemma outcome_count_le: "outcome_count rs outcome \<le> length rs"
  by (simp add: outcome_count_def)

lemma rates_of_keys: "map fst (rates_of rs) = OUTCOME_ORDER"
  by (simp add: rates_of_def Let_def comp_def)

lemma rates_of_bounds: "list_all (\<lambda>x. 0 \<le> x \<and> x \<le> 1) (map snd (rates_of rs))"
  by (simp add: rates_of_def Let_def list_all_iff outcome_count_le)

lemma rates_of_sum:
  assumes "rs \<noteq> []" and "list_all (\<lambda>r. isin (r ''outcome'') OUTCOME_ORDER) rs"
  shows "sum_list (map snd (rates_of rs)) = 1"
proof -
  have n: "real (length rs) \<noteq> 0"
    using assms(1) by simp
  have "sum_list (map snd (rates_of rs))
          = (\<Sum>outcome\<leftarrow>OUTCOME_ORDER. real (outcome_count rs outcome) / real (length rs))"
    using assms(1) by (simp add: rates_of_def Let_def comp_def)
  also have "\<dots> = (\<Sum>outcome\<leftarrow>OUTCOME_ORDER. real (outcome_count rs outcome)) / real (length rs)"
    by (simp add: OUTCOME_ORDER_def add_divide_distrib)
  also have "(\<Sum>outcome\<leftarrow>OUTCOME_ORDER. real (outcome_count rs outcome))
               = real (\<Sum>outcome\<leftarrow>OUTCOME_ORDER. outcome_count rs outcome)"
    by (simp add: OUTCOME_ORDER_def)
  also have "\<dots> = real (length rs)"
    using assms(2) by (simp add: counts_partition_rows)
  finally show ?thesis
    using n by simp
qed

text \<open>
  C5: for plate appearances labelled by the event classifier, with the platoon column
  present when a filter is given, and at least one row selected, \<open>league_rates_from_data\<close>
  returns a table over the eight categories in their order, every frequency lies between
  0 and 1, and the frequencies sum to 1: the eight counts add up to the number of selected
  rows. The quotients are exact here; the floats of the code are their roundings.
\<close>

theorem rates_of_labelled_rows_sum_to_one:
  assumes "map_events_to_outcomes p0 = Inr pas"
      and "platoon_filter = None \<or> ''platoon_matchup'' \<in> set (columns pas)"
      and "selected_rows platoon_filter pas \<noteq> []"
  shows "\<exists>rates. league_rates_from_data pas platoon_filter = Inr rates
           \<and> map fst rates = OUTCOME_ORDER
           \<and> list_all (\<lambda>x. 0 \<le> x \<and> x \<le> 1) (map snd rates)
           \<and> sum_list (map snd rates) = 1
           \<and> (\<Sum>outcome\<leftarrow>OUTCOME_ORDER. outcome_count (selected_rows platoon_filter pas) outcome)
               = length (selected_rows platoon_filter pas)"
proof -
  let ?rs = "selected_rows platoon_filter pas"
  have run: "league_rates_from_data pas platoon_filter = Inr (rates_of ?rs)"
    using assms(2) map_events_to_outcomes_labelled(1) [OF assms(1)]
    by (auto simp: league_rates_from_data_def)
  have labelled: "list_all (\<lambda>r. isin (r ''outcome'') OUTCOME_ORDER) ?rs"
    using map_events_to_outcomes_labelled(2) [OF assms(1)] by (rule selected_rows_labelled)
  with assms(3) have "sum_list (map snd (rates_of ?rs)) = 1"
    by (rule rates_of_sum)
  moreover from labelled
  have "(\<Sum>outcome\<leftarrow>OUTCOME_ORDER. outcome_count ?rs outcome) = length ?rs"
    by (rule counts_partition_rows)
  ultimately show ?thesis
    using run by (simp add: rates_of_keys rates_of_bounds)
qed

theorem rates_of_labelled_rows_sum_to_one_witness:
  "\<exists>rates.
     league_rates_from_data
       \<lparr>columns = [''events'', ''platoon_matchup'', ''outcome''],
        rows = [(\<lambda>c. CNull)(''events'' := CStr ''walk'', ''platoon_matchup'' := CStr ''same'',
                               ''outcome'' := CStr ''Walk''),
                (\<lambda>c. CNull)(''events'' := CStr ''field_out'', ''platoon_matchup'' := CStr ''same'',
                               ''outcome'' := CStr ''Out''),
                (\<lambda>c. CNull)(''events'' := CStr ''single'', ''platoon_matchup'' := CStr ''opposite'',
                               ''outcome'' := CStr ''Single'')]\<rparr>
       (Some ''same'') = Inr rates
     \<and> map fst rates = OUTCOME_ORDER
     \<and> list_all (\<lambda>x. 0 \<le> x \<and> x \<le> 1) (map snd rates)
     \<and> sum_list (map snd rates) = 1"
proof -
  let ?p0 = "\<lparr>columns = [''events'', ''platoon_matchup''],
              rows = [(\<lambda>c. CNull)(''events'' := CStr ''walk'', ''platoon_matchup'' := CStr ''same''),
                      (\<lambda>c. CNull)(''events'' := CStr ''field_out'', ''platoon_matchup'' := CStr ''same''),
                      (\<lambda>c. CNull)(''events'' := CStr ''single'', ''platoon_matchup'' := CStr ''opposite'')]\<rparr>"
  let ?pas = "\<lparr>columns = [''events'', ''platoon_matchup'', ''outcome''],
        rows = [(\<lambda>c. CNull)(''events'' := CStr ''walk'', ''platoon_matchup'' := CStr ''same'',
                               ''outcome'' := CStr ''Walk''),
                (\<lambda>c. CNull)(''events'' := CStr ''field_out'', ''platoon_matchup'' := CStr ''same'',
                               ''outcome'' := CStr ''Out''),
                (\<lambda>c. CNull)(''events'' := CStr ''single'', ''platoon_matchup'' := CStr ''opposite'',
                               ''outcome'' := CStr ''Single'')]\<rparr>"
  have e: "event_to_outcome (Some ''walk'') = ''Walk''"
    "event_to_outcome (Some ''field_out'') = ''Out''"
    "event_to_outcome (Some ''single'') = ''Single''"
    by code_simp+
  have a: "map_events_to_outcomes ?p0 = Inr ?pas"
    by (simp add: map_events_to_outcomes_def add_column_def e)
  have b: "Some ''same'' = None \<or> ''platoon_matchup'' \<in> set (columns ?pas)"
    by simp
  have c: "selected_rows (Some ''same'') ?pas \<noteq> []"
    by (simp add: selected_rows_def)
  from rates_of_labelled_rows_sum_to_one [OF a b c] show ?thesis
    by blast
qed

text \<open>
  C4 fails on the code: a labelled dataset of one left-handed batter against a
  right-handed pitcher has no same-handed row, and it has no \<open>platoon_matchup\<close> column,
  as no dataset built by this repository has. With the filter "same" the aggregator does
  not return the all-zero table: line 120 imports \<open>add_platoon_info\<close>, which \<open>pa_data\<close>
  does not define, and the call raises ImportError.
\<close>

theorem platoon_filter_without_column_fails:
  "league_rates_from_data
     \<lparr>columns = [''events'', ''outcome'', ''stand'', ''p_throws''],
      rows = [(\<lambda>c. CNull)(''events'' := CStr ''field_out'', ''outcome'' := CStr ''Out'',
                             ''stand'' := CStr ''L'', ''p_throws'' := CStr ''R'')]\<rparr>
     (Some ''same'')
   = Inl ImportError"
  by (simp add: league_rates_from_data_def)

text \<open>
  Where the column is there (or no filter is given), an empty selection does give the
  all-zero table.
\<close>

lemma empty_selection_all_zero:
  assumes "''outcome'' \<in> set (columns pas)"
      and "platoon_filter = None \<or> ''platoon_matchup'' \<in> set (columns pas)"
      and "selected_rows platoon_filter pas = []"
  shows "league_rates_from_data pas platoon_filter = Inr (map (\<lambda>outcome. (outcome, 0)) OUTCOME_ORDER)"
  using assms by (auto simp add: league_rates_from_data_def rates_of_def)

section \<open>The probability server\<close>

text \<open>
  C3, as the code has it: with \<open>use_ml\<close> false, \<open>get_outcome_probs\<close> returns the table
  stored in the rate file as it is; with \<open>use_ml\<close> true, no model file, and \<open>pa_model\<close>
  importable, it returns what it returns with \<open>use_ml\<close> false.
\<close>

theorem empirical_path_returns_rate_file:
  "(rates_json fs = Some rates \<longrightarrow> get_outcome_probs fs b s h False = Inr rates)
   \<and> (model_pkl fs = None \<and> pa_model_importable fs \<longrightarrow>
        get_outcome_probs fs b s h True = get_outcome_probs fs b s h False)"
  by (simp add: get_outcome_probs_def ml_attempt_def load_league_rates_def load_outcome_model_def)

theorem empirical_path_returns_rate_file_witness:
  "get_outcome_probs
     \<lparr>rates_json = Some [(''Walk'', 0.08), (''HBP'', 0.01), (''Single'', 0.15), (''Double'', 0.05),
                         (''Triple'', 0.005), (''HR'', 0.03), (''Strikeout'', 0.22), (''Out'', 0.455 :: real)],
      model_pkl = None, pa_model_importable = True\<rparr> 0 0 False False
   = Inr [(''Walk'', 0.08), (''HBP'', 0.01), (''Single'', 0.15), (''Double'', 0.05),
          (''Triple'', 0.005), (''HR'', 0.03), (''Strikeout'', 0.22), (''Out'', 0.455)]
   \<and> get_outcome_probs
     \<lparr>rates_json = Some [(''Walk'', 0.08), (''HBP'', 0.01), (''Single'', 0.15), (''Double'', 0.05),
                         (''Triple'', 0.005), (''HR'', 0.03), (''Strikeout'', 0.22), (''Out'', 0.455 :: real)],
      model_pkl = None, pa_model_importable = True\<rparr> 0 0 False True
   = Inr [(''Walk'', 0.08), (''HBP'', 0.01), (''Single'', 0.15), (''Double'', 0.05),
          (''Triple'', 0.005), (''HR'', 0.03), (''Strikeout'', 0.22), (''Out'', 0.455)]"
  using empirical_path_returns_rate_file
    [of "\<lparr>rates_json = Some [(''Walk'', 0.08), (''HBP'', 0.01), (''Single'', 0.15), (''Double'', 0.05),
                         (''Triple'', 0.005), (''HR'', 0.03), (''Strikeout'', 0.22), (''Out'', 0.455 :: real)],
      model_pkl = None, pa_model_importable = True\<rparr>"
        "[(''Walk'', 0.08), (''HBP'', 0.01), (''Single'', 0.15), (''Double'', 0.05),
          (''Triple'', 0.005), (''HR'', 0.03), (''Strikeout'', 0.22), (''Out'', 0.455)]" 0 0 False]
  by simp

text \<open>
  C3 as the specification states it fails: where \<open>pa_model\<close> cannot be imported, with
  no model file and the rate file of the specification's scenario, the call with \<open>use_ml\<close>
  true raises ImportError, which the handler on line 49 does not catch, while the call with
  \<open>use_ml\<close> false returns the table.
\<close>

theorem fallback_needs_the_import:
  "get_outcome_probs
     \<lparr>rates_json = Some [(''Walk'', 0.08), (''HBP'', 0.01), (''Single'', 0.15), (''Double'', 0.05),
                         (''Triple'', 0.005), (''HR'', 0.03), (''Strikeout'', 0.22), (''Out'', 0.455 :: real)],
      model_pkl = None, pa_model_importable = False\<rparr> 0 0 False True
   = Inl ImportError
   \<and> get_outcome_probs
     \<lparr>rates_json = Some [(''Walk'', 0.08), (''HBP'', 0.01), (''Single'', 0.15), (''Double'', 0.05),
                         (''Triple'', 0.005), (''HR'', 0.03), (''Strikeout'', 0.22), (''Out'', 0.455 :: real)],
      model_pkl = None, pa_model_importable = False\<rparr> 0 0 False False
   = Inr [(''Walk'', 0.08), (''HBP'', 0.01), (''Single'', 0.15), (''Double'', 0.05),
          (''Triple'', 0.005), (''HR'', 0.03), (''Strikeout'', 0.22), (''Out'', 0.455)]"
  by (simp add: get_outcome_probs_def ml_attempt_def load_league_rates_def)

text \<open>
  C10: on the empirical path (\<open>use_ml\<close> false, or no model file) the result of
  \<open>get_outcome_probs\<close> is the same for every ball count, strike count and handedness flag.
\<close>

theorem empirical_path_ignores_context:
  assumes "\<not> use_ml \<or> model_pkl fs = None"
  shows "get_outcome_probs fs b s h use_ml = get_outcome_probs fs b' s' h' use_ml"
  using assms
  by (auto simp add: get_outcome_probs_def ml_attempt_def load_outcome_model_def)

theorem empirical_path_ignores_context_witness:
  "get_outcome_probs
     \<lparr>rates_json = Some [(''Walk'', 1 :: real)], model_pkl = None, pa_model_importable = True\<rparr>
     0 0 False True
   = get_outcome_probs
     \<lparr>rates_json = Some [(''Walk'', 1 :: real)], model_pkl = None, pa_model_importable = True\<rparr>
     (- 7) 99 True True"
  using empirical_path_ignores_context
    [of True "\<lparr>rates_json = Some [(''Walk'', 1 :: real)], model_pkl = None,
               pa_model_importable = True\<rparr>" 0 0 False "- 7" 99 True]
  by simp

end
